theory Spec2Isabelle
  imports Main "HOL-Library.Sublist" "HOL-Library.Signed_Division"
begin

text \<open>
  The food matcher and the weekly aggregation of the 20 Foods application: the text
  normalizer (\<open>Text\<close>), the catalog with its match index and the utterance matcher
  (\<open>FoodEntry\<close>, \<open>CompareEntry\<close>, \<open>FoodData\<close>), and the history log with its week
  buckets (\<open>HistoryEntry\<close>, \<open>WeekEntry\<close>, \<open>HistoryData\<close>). Each class is a record, each
  method a function that takes the state it reads and returns what it builds; a method
  that can throw returns a sum with the error on the left.
\<close>

section \<open>Strings and arrays\<close>

text \<open>
  A JavaScript string is a sequence of UTF-16 code units. The model works on strings whose
  code units lie in the range U+0000 .. U+00FF, so that a code unit is a \<^typ>\<open>char\<close> and
  a string is a \<^typ>\<open>string\<close>; \<open>length\<close> is then the \<open>.length\<close> of the source.
  The built-in string methods the sources call are written out for that range.
\<close>

text \<open>\<open>String.prototype.trim\<close> strips WhiteSpace and LineTerminator code units: in the
  modelled range these are TAB, LF, VT, FF, CR, SPACE and NO-BREAK SPACE.\<close>

definition isWhiteSpace :: "char \<Rightarrow> bool" where
  "isWhiteSpace c =
     (c = CHR 0x09 \<or> c = CHR 0x0A \<or> c = CHR 0x0B \<or> c = CHR 0x0C \<or> c = CHR 0x0D
      \<or> c = CHR 0x20 \<or> c = CHR 0xA0)"

definition trim :: "string \<Rightarrow> string" where
  "trim s = rev (dropWhile isWhiteSpace (rev (dropWhile isWhiteSpace s)))"

text \<open>\<open>String.prototype.toLowerCase\<close>: in the modelled range the upper-case letters are
  A .. Z and U+00C0 .. U+00DE without the multiplication sign U+00D7; each maps to the code
  unit 32 above it.\<close>

definition toLowerCaseChar :: "char \<Rightarrow> char" where
  "toLowerCaseChar c =
     (let n = (of_char c :: nat)
      in if (65 \<le> n \<and> n \<le> 90) \<or> (192 \<le> n \<and> n \<le> 222 \<and> n \<noteq> 215)
         then char_of (n + 32) else c)"

definition toLowerCase :: "string \<Rightarrow> string" where
  "toLowerCase s = map toLowerCaseChar s"

text \<open>\<open>s.includes(p)\<close>: \<open>p\<close> occurs in \<open>s\<close> as a contiguous substring; the empty
  string occurs in every string.\<close>

fun includesStr :: "string \<Rightarrow> string \<Rightarrow> bool" where
  "includesStr [] p = (p = [])"
| "includesStr (c # cs) p = (prefix p (c # cs) \<or> includesStr cs p)"

text \<open>\<open>s.replaceAll(p, '')\<close> for a string pattern \<open>p\<close>: the matches are found from left to
  right, each search starting behind the previous match; with the empty pattern every
  match is empty and the string is returned unchanged.\<close>

function replaceAllEmpty :: "string \<Rightarrow> string \<Rightarrow> string" where
  "replaceAllEmpty [] p = []"
| "replaceAllEmpty (c # cs) p =
     (if p \<noteq> [] \<and> prefix p (c # cs) then replaceAllEmpty (drop (length p) (c # cs)) p
      else c # replaceAllEmpty cs p)"
  by pat_completeness auto
termination
  by (relation "measure (\<lambda>(s, p). length s)") auto

text \<open>\<open>s.split(/[^\p{L} ]+/u)\<close>: the pieces of \<open>s\<close> between the maximal runs of
  delimiter code units, with an empty piece before a leading and behind a trailing run;
  the empty string gives one empty piece. A delimiter is a code unit that is neither a
  letter (Unicode category L) nor the space U+0020.\<close>

definition isLetter :: "char \<Rightarrow> bool" where
  "isLetter c =
     (let n = (of_char c :: nat)
      in (65 \<le> n \<and> n \<le> 90) \<or> (97 \<le> n \<and> n \<le> 122) \<or> n = 170 \<or> n = 181 \<or> n = 186
         \<or> (192 \<le> n \<and> n \<le> 214) \<or> (216 \<le> n \<and> n \<le> 246) \<or> 248 \<le> n)"

definition isDelimiter :: "char \<Rightarrow> bool" where
  "isDelimiter c = (\<not> isLetter c \<and> c \<noteq> CHR '' '')"

function splitRuns :: "string \<Rightarrow> string \<Rightarrow> string list" where
  "splitRuns cur [] = [rev cur]"
| "splitRuns cur (c # cs) =
     (if isDelimiter c then rev cur # splitRuns [] (dropWhile isDelimiter cs)
      else splitRuns (c # cur) cs)"
  by pat_completeness auto
termination
  by (relation "measure (\<lambda>(cur, s). length s)")
     (auto simp: less_Suc_eq_le length_dropWhile_le)

definition splitSynonyms :: "string \<Rightarrow> string list" where
  "splitSynonyms s = splitRuns [] s"

text \<open>\<open>Array.prototype.sort(compare)\<close> is a stable sort; \<open>compare a b \<le> 0\<close> keeps \<open>a\<close>
  in front of \<open>b\<close>.\<close>

fun insertBy :: "('a \<Rightarrow> 'a \<Rightarrow> int) \<Rightarrow> 'a \<Rightarrow> 'a list \<Rightarrow> 'a list" where
  "insertBy cmp x [] = [x]"
| "insertBy cmp x (y # ys) = (if cmp x y \<le> 0 then x # y # ys else y # insertBy cmp x ys)"

fun sortBy :: "('a \<Rightarrow> 'a \<Rightarrow> int) \<Rightarrow> 'a list \<Rightarrow> 'a list" where
  "sortBy cmp [] = []"
| "sortBy cmp (x # xs) = insertBy cmp x (sortBy cmp xs)"

section \<open>Text\<close>

definition normalizeName :: "string \<Rightarrow> string" where
  "normalizeName input = toLowerCase (trim input)"

definition normalizeForComparison :: "string \<Rightarrow> string" where
  "normalizeForComparison input = replaceAllEmpty (toLowerCase (trim input)) '' ''"

section \<open>FoodEntry and CompareEntry\<close>

record FoodEntry =
  name :: string
  category :: string
  synonyms :: "string list"

text \<open>The constructor is only called on rows of at least two cells: \<open>c0\<close> and \<open>c1\<close> are
  \<open>row[0]\<close> and \<open>row[1]\<close>, \<open>rest\<close> holds the cells from index 2 on.\<close>

definition newFoodEntry :: "string \<Rightarrow> string \<Rightarrow> string list \<Rightarrow> FoodEntry" where
  "newFoodEntry c0 c1 rest =
     \<lparr>name = normalizeName c0,
      category = normalizeName c1,
      synonyms = filter (\<lambda>synonym. synonym \<noteq> [])
                   (map normalizeName
                      (splitSynonyms (case rest of [] \<Rightarrow> [] | c2 # _ \<Rightarrow> c2)))\<rparr>"

record CompareEntry =
  normalized :: string
  original :: string
  food :: FoodEntry

definition newCompareEntry :: "string \<Rightarrow> FoodEntry \<Rightarrow> CompareEntry" where
  "newCompareEntry orig fd =
     \<lparr>normalized = normalizeForComparison orig, original = normalizeName orig, food = fd\<rparr>"

section \<open>FoodData\<close>

text \<open>The state of the catalog. The view sorted by \<open>original\<close> is ordered by the
  locale-dependent \<open>localeCompare\<close> and only feeds the manual picker; it is not part of the
  model.\<close>

record FoodData =
  m_foodEntries :: "FoodEntry list"
  m_compareItemsByLength :: "CompareEntry list"

text \<open>\<open>processRows\<close>: a row with \<open>row.length > 1\<close> is a row \<open>c0 # c1 # rest\<close>; every
  other row is skipped with a warning. A duplicate name is only warned about.\<close>

fun processRows :: "string list list \<Rightarrow> FoodEntry list" where
  "processRows [] = []"
| "processRows (row # rows) =
     (case row of
        c0 # c1 # rest \<Rightarrow> newFoodEntry c0 c1 rest # processRows rows
      | _ \<Rightarrow> processRows rows)"

definition addFoodToCompareItems :: "FoodEntry \<Rightarrow> CompareEntry list" where
  "addFoodToCompareItems fd =
     newCompareEntry (name fd) fd # map (\<lambda>synonym. newCompareEntry synonym fd) (synonyms fd)"

definition buildCompareItems :: "FoodEntry list \<Rightarrow> CompareEntry list" where
  "buildCompareItems foods = concat (map addFoodToCompareItems foods)"

definition sortCompareItems :: "CompareEntry list \<Rightarrow> CompareEntry list" where
  "sortCompareItems items =
     sortBy (\<lambda>first second. int (length (normalized second)) - int (length (normalized first)))
       items"

definition importRows :: "string list list \<Rightarrow> FoodData" where
  "importRows rows =
     (let foods = processRows rows
      in \<lparr>m_foodEntries = foods,
          m_compareItemsByLength = sortCompareItems (buildCompareItems foods)\<rparr>)"

definition findForName :: "FoodData \<Rightarrow> string \<Rightarrow> FoodEntry option" where
  "findForName fd nm = find (\<lambda>entry. name entry = nm) (m_foodEntries fd)"

text \<open>\<open>processText\<close>: the \<open>forEach\<close> loop threads the pair of \<open>result\<close> and the working
  copy \<open>normalizedText\<close> through the compare items in scan order.\<close>

definition processStep ::
  "CompareEntry list \<times> string \<Rightarrow> CompareEntry \<Rightarrow> CompareEntry list \<times> string" where
  "processStep st compareItem =
     (case st of (result, normalizedText) \<Rightarrow>
        if includesStr normalizedText (normalized compareItem)
        then (result @ [compareItem], replaceAllEmpty normalizedText (normalized compareItem))
        else (result, normalizedText))"

definition processText :: "FoodData \<Rightarrow> string \<Rightarrow> CompareEntry list" where
  "processText fd text =
     fst (foldl processStep ([], normalizeForComparison text) (m_compareItemsByLength fd))"

section \<open>Dates\<close>

text \<open>
  A \<open>Date\<close> is modelled by its time value, the number of milliseconds since
  1 January 1970 00:00 UTC; only valid dates are modelled, and comparing two dates
  compares their time values. The methods that read or set the fields of a date work
  in the local time zone of the device. A zone is given by the two offsets of the language
  standard: the offset from UTC that is in force at a time value, and the offset by which
  a local time value is read back (for a local time that a clock change skips this is the
  offset before the change, for a local time that occurs twice the offset of the first
  pass). \<open>LocalTime\<close>, \<open>UTC\<close>, \<open>Day\<close> and \<open>WeekDay\<close> (\<open>getDay\<close>) are the abstract
  operations of the standard. There \<open>setDate\<close> builds the new day number as the day
  number of the first of the month plus the argument minus one and keeps the local time
  within the day, so \<open>d.setDate(d.getDate() + k)\<close> moves the local time value of \<open>d\<close> by
  \<open>k\<close> days; \<open>setHours(h, m, s, ms)\<close> keeps the local day and replaces the time within
  the day. Both read the new local time value back through \<open>UTC\<close>.
\<close>

type_synonym Date = int

record Zone =
  offsetAtUTC :: "int \<Rightarrow> int"
  offsetAtLocal :: "int \<Rightarrow> int"

definition LocalTime :: "Zone \<Rightarrow> Date \<Rightarrow> int" where
  "LocalTime Z t = t + offsetAtUTC Z t"

definition UTC :: "Zone \<Rightarrow> int \<Rightarrow> Date" where
  "UTC Z l = l - offsetAtLocal Z l"

definition msPerDay :: int where
  "msPerDay = 24 * 60 * 60 * 1000"

definition Day :: "int \<Rightarrow> int" where
  "Day t = t div msPerDay"

definition getDay :: "Zone \<Rightarrow> Date \<Rightarrow> int" where
  "getDay Z t = (Day (LocalTime Z t) + 4) mod 7"

definition setDateRelative :: "Zone \<Rightarrow> Date \<Rightarrow> int \<Rightarrow> Date" where
  "setDateRelative Z t k = UTC Z (LocalTime Z t + k * msPerDay)"

definition setHours :: "Zone \<Rightarrow> Date \<Rightarrow> int \<Rightarrow> int \<Rightarrow> int \<Rightarrow> int \<Rightarrow> Date" where
  "setHours Z t h m s ms =
     UTC Z (Day (LocalTime Z t) * msPerDay + (((h * 60 + m) * 60 + s) * 1000 + ms))"

section \<open>The platform\<close>

text \<open>
  The built-in functions whose results the sources store or read back are parameters of
  the model: \<open>JSON.stringify\<close> and \<open>JSON.parse\<close> at the two types they are used at
  (\<open>None\<close> is a \<open>SyntaxError\<close>), \<open>Date.prototype.toISOString\<close>, the \<open>Date\<close> constructor
  on a string, and \<open>String.prototype.localeCompare\<close>.
\<close>

record StorageData =
  foodName :: string
  consumedName :: string
  date :: string

record Platform =
  JSON_stringify_data :: "StorageData \<Rightarrow> string"
  JSON_parse_data :: "string \<Rightarrow> StorageData option"
  JSON_parse_texts :: "string \<Rightarrow> string list option"
  toISOString :: "Date \<Rightarrow> string"
  newDateFromString :: "string \<Rightarrow> Date"
  localeCompare :: "string \<Rightarrow> string \<Rightarrow> int"

datatype error = SyntaxError | FoodNotFound string

section \<open>HistoryEntry\<close>

record HistoryEntry =
  m_food :: FoodEntry
  m_consumedName :: string
  m_date :: Date

definition createFromInput :: "Date \<Rightarrow> CompareEntry \<Rightarrow> HistoryEntry" where
  "createFromInput now compareEntry =
     \<lparr>m_food = food compareEntry, m_consumedName = original compareEntry, m_date = now\<rparr>"

definition createFromStorage :: "Platform \<Rightarrow> FoodData \<Rightarrow> string \<Rightarrow> error + HistoryEntry" where
  "createFromStorage P fd data =
     (case JSON_parse_data P data of
        None \<Rightarrow> Inl SyntaxError
      | Some storageData \<Rightarrow>
          (case findForName fd (foodName storageData) of
             None \<Rightarrow> Inl (FoodNotFound (foodName storageData))
           | Some fe \<Rightarrow>
               Inr \<lparr>m_food = fe, m_consumedName = consumedName storageData,
                    m_date = newDateFromString P (date storageData)\<rparr>))"

definition toJson :: "Platform \<Rightarrow> HistoryEntry \<Rightarrow> string" where
  "toJson P e =
     JSON_stringify_data P
       \<lparr>foodName = name (m_food e), consumedName = m_consumedName e,
        date = toISOString P (m_date e)\<rparr>"

section \<open>WeekEntry\<close>

record WeekEntry =
  startDate :: Date
  endDate :: Date
  foods :: "FoodEntry list"

text \<open>The constructor receives the \<open>Set\<close> of foods as the list of its members in
  insertion order, spreads it into an array and sorts that by name.\<close>

definition newWeekEntry :: "Platform \<Rightarrow> Date \<Rightarrow> Date \<Rightarrow> FoodEntry list \<Rightarrow> WeekEntry" where
  "newWeekEntry P start end' foodSet =
     \<lparr>startDate = start, endDate = end',
      foods = sortBy (\<lambda>first second. localeCompare P (name first) (name second)) foodSet\<rparr>"

section \<open>HistoryData\<close>

record HistoryData =
  m_historyEntries :: "HistoryEntry list"

text \<open>\<open>texts.map(text => HistoryEntry.createFromStorage(text))\<close>: the first record that
  throws ends the whole \<open>map\<close>.\<close>

fun mapCreateFromStorage ::
  "Platform \<Rightarrow> FoodData \<Rightarrow> string list \<Rightarrow> error + HistoryEntry list" where
  "mapCreateFromStorage P fd [] = Inr []"
| "mapCreateFromStorage P fd (t # ts) =
     (case createFromStorage P fd t of
        Inl e \<Rightarrow> Inl e
      | Inr entry \<Rightarrow>
          (case mapCreateFromStorage P fd ts of
             Inl e \<Rightarrow> Inl e
           | Inr entries \<Rightarrow> Inr (entry # entries)))"

text \<open>\<open>raw\<close> is what \<open>localStorage.getItem\<close> returned: \<open>None\<close> for \<open>null\<close>; \<open>!raw\<close> holds for
  \<open>null\<close> and for the empty string.\<close>

definition loadFromStorage ::
  "Platform \<Rightarrow> FoodData \<Rightarrow> string option \<Rightarrow> error + HistoryEntry list" where
  "loadFromStorage P fd raw =
     (case raw of
        None \<Rightarrow> Inr []
      | Some r \<Rightarrow>
          if r = [] then Inr []
          else (case JSON_parse_texts P r of
                  None \<Rightarrow> Inl SyntaxError
                | Some texts \<Rightarrow> mapCreateFromStorage P fd texts))"

definition sortEntries :: "HistoryEntry list \<Rightarrow> HistoryEntry list" where
  "sortEntries entries = sortBy (\<lambda>first second. m_date second - m_date first) entries"

text \<open>\<open>initialize\<close>: an error thrown while loading leaves the method before the
  assignment, so no history is produced.\<close>

definition initialize :: "Platform \<Rightarrow> FoodData \<Rightarrow> string option \<Rightarrow> error + HistoryData" where
  "initialize P fd raw =
     (case loadFromStorage P fd raw of
        Inl e \<Rightarrow> Inl e
      | Inr entries \<Rightarrow> Inr \<lparr>m_historyEntries = sortEntries entries\<rparr>)"

text \<open>\<open>add\<close>: \<open>nows\<close> holds the readings of the clock by the successive \<open>new Date()\<close>
  of \<open>createFromInput\<close>, one for each entry. \<open>add\<close> and \<open>clear\<close> also write the log to
  the local storage, which the model leaves out.\<close>

definition add :: "Date list \<Rightarrow> CompareEntry list \<Rightarrow> HistoryData \<Rightarrow> HistoryData" where
  "add nows entries h =
     \<lparr>m_historyEntries =
        sortEntries (m_historyEntries h @ map2 createFromInput nows entries)\<rparr>"

definition clear :: HistoryData where
  "clear = \<lparr>m_historyEntries = []\<rparr>"

text \<open>\<open>firstDay\<close> is \<open>settings.startDayOfWeek\<close>; \<open>%\<close> is the remainder of the truncating
  division.\<close>

definition startOfWeek :: "Zone \<Rightarrow> int \<Rightarrow> Date \<Rightarrow> Date" where
  "startOfWeek Z firstDay inputDate =
     (let dayDifference = (getDay Z inputDate - firstDay + 7) smod 7;
          result = setDateRelative Z inputDate (- dayDifference)
      in setHours Z result 0 0 0 0)"

definition endOfWeek :: "Zone \<Rightarrow> int \<Rightarrow> Date \<Rightarrow> Date" where
  "endOfWeek Z firstDay inputDate =
     (let result = startOfWeek Z firstDay inputDate;
          result = setDateRelative Z result 6
      in setHours Z result 23 59 59 999)"

text \<open>\<open>Set.prototype.add\<close> on the list of members in insertion order. Records are
  compared by value where the \<open>Set\<close> compares objects: for a catalog with two rows that
  are equal in every field the code keeps two foods where the model keeps one. Which
  foods are members is the same on both readings.\<close>

definition setAdd :: "'a list \<Rightarrow> 'a \<Rightarrow> 'a list" where
  "setAdd s x = (if x \<in> set s then s else s @ [x])"

definition getWeekEntryForDate ::
  "Zone \<Rightarrow> Platform \<Rightarrow> int \<Rightarrow> HistoryData \<Rightarrow> Date \<Rightarrow> WeekEntry" where
  "getWeekEntryForDate Z P firstDay h d =
     (let start = startOfWeek Z firstDay d;
          end' = endOfWeek Z firstDay start;
          foodSet = foldl setAdd []
                      (map m_food
                         (filter (\<lambda>entry. m_date entry \<ge> start \<and> m_date entry \<le> end')
                            (m_historyEntries h)))
      in newWeekEntry P start end' foodSet)"

text \<open>\<open>getCountForToday\<close>, with the reading \<open>now\<close> of the clock.\<close>

definition getCountForToday :: "Zone \<Rightarrow> Platform \<Rightarrow> int \<Rightarrow> Date \<Rightarrow> HistoryData \<Rightarrow> WeekEntry" where
  "getCountForToday Z P firstDay now h = getWeekEntryForDate Z P firstDay h now"




section \<open>Auxiliary definitions\<close>

text \<open>The \<open>forEach\<close> loop of \<open>processText\<close> from any working text on: \<open>scanItems\<close> is the
  \<open>result\<close> and \<open>workingText\<close> the working copy of the text that the loop has built when
  it has scanned the compare items \<open>items\<close>.\<close>

definition scanItems :: "CompareEntry list \<Rightarrow> string \<Rightarrow> CompareEntry list" where
  "scanItems items t = fst (foldl processStep ([], t) items)"

definition workingText :: "CompareEntry list \<Rightarrow> string \<Rightarrow> string" where
  "workingText items t = snd (foldl processStep ([], t) items)"


definition utcZone :: Zone where
  "utcZone = \<lparr>offsetAtUTC = (\<lambda>t. 0), offsetAtLocal = (\<lambda>l. 0)\<rparr>"





text \<open>
  A sample platform for instantiating the theorems about the history store. Its
  \<open>JSON.stringify\<close> writes the three fields as quoted strings, escaping the quote and the
  backslash (\<open>jsonQuote\<close>), and its \<open>JSON.parse\<close> reads that form back (\<open>jsonUnquote\<close>,
  \<open>sampleParse\<close>); the other built-in functions are tables at the sample values. There
  are two stored record texts and the stored batch that holds both.
\<close>

definition jsonQuote :: "string \<Rightarrow> string" where
  "jsonQuote s =
     CHR 0x22 # concat (map (\<lambda>c. if c = CHR 0x22 \<or> c = CHR 0x5C then [CHR 0x5C, c] else [c]) s)
       @ [CHR 0x22]"

fun unquoteBody :: "string \<Rightarrow> string \<Rightarrow> (string \<times> string) option" where
  "unquoteBody acc [] = None"
| "unquoteBody acc [c] = (if c = CHR 0x22 then Some (rev acc, []) else None)"
| "unquoteBody acc (c # e # cs) =
     (if c = CHR 0x22 then Some (rev acc, e # cs)
      else if c = CHR 0x5C then unquoteBody (e # acc) cs
      else unquoteBody (c # acc) (e # cs))"

definition jsonUnquote :: "string \<Rightarrow> (string \<times> string) option" where
  "jsonUnquote s = (case s of [] \<Rightarrow> None | c # cs \<Rightarrow> if c = CHR 0x22 then unquoteBody [] cs else None)"

definition expect :: "string \<Rightarrow> string \<Rightarrow> string option" where
  "expect p s = (if prefix p s then Some (drop (length p) s) else None)"

definition sampleStringify :: "StorageData \<Rightarrow> string" where
  \<open>sampleStringify d =
     ''{"foodName":'' @ jsonQuote (foodName d) @ '',"consumedName":''
       @ jsonQuote (consumedName d) @ '',"date":'' @ jsonQuote (date d) @ ''}''\<close>

definition sampleParse :: "string \<Rightarrow> StorageData option" where
  \<open>sampleParse s =
     (case expect ''{"foodName":'' s of None \<Rightarrow> None | Some r1 \<Rightarrow>
      case jsonUnquote r1 of None \<Rightarrow> None | Some (f, r2) \<Rightarrow>
      case expect '',"consumedName":'' r2 of None \<Rightarrow> None | Some r3 \<Rightarrow>
      case jsonUnquote r3 of None \<Rightarrow> None | Some (c, r4) \<Rightarrow>
      case expect '',"date":'' r4 of None \<Rightarrow> None | Some r5 \<Rightarrow>
      case jsonUnquote r5 of None \<Rightarrow> None | Some (d, r6) \<Rightarrow>
      if r6 = ''}'' then Some \<lparr>foodName = f, consumedName = c, date = d\<rparr> else None)\<close>

definition sampleAppleText :: string where
  \<open>sampleAppleText =
     ''{"foodName":"apple","consumedName":"green apple","date":"2024-01-07T12:00:00.000Z"}''\<close>

definition sampleDurianText :: string where
  \<open>sampleDurianText =
     ''{"foodName":"durian","consumedName":"durian","date":"2024-01-08T09:30:00.000Z"}''\<close>

definition sampleRaw :: string where
  "sampleRaw = ''['' @ jsonQuote sampleAppleText @ '','' @ jsonQuote sampleDurianText @ '']''"

definition samplePlatform :: Platform where
  "samplePlatform =
     \<lparr>JSON_stringify_data = sampleStringify,
      JSON_parse_data = sampleParse,
      JSON_parse_texts =
        (\<lambda>r. if r = sampleRaw then Some [sampleAppleText, sampleDurianText] else None),
      toISOString =
        (\<lambda>t. if t = 1704628800000 then ''2024-01-07T12:00:00.000Z''
              else if t = 1704706200000 then ''2024-01-08T09:30:00.000Z'' else []),
      newDateFromString =
        (\<lambda>t. if t = ''2024-01-07T12:00:00.000Z'' then 1704628800000
              else if t = ''2024-01-08T09:30:00.000Z'' then 1704706200000 else 0),
      localeCompare = (\<lambda>a b. 0)\<rparr>"


section \<open>Properties of the text normalizer\<close>

lemma includesStr_sublist: "includesStr t p \<longleftrightarrow> sublist p t"
  by (induction t) (auto simp: sublist_Cons_right)

lemma replaceAllEmpty_space: "replaceAllEmpty s '' '' = filter (\<lambda>c. c \<noteq> CHR '' '') s"
  by (induction s) auto

lemma replaceAllEmpty_Nil: "replaceAllEmpty s [] = s"
  by (induction s) auto

lemma normalizeForComparison_filter:
  "normalizeForComparison s = filter (\<lambda>c. c \<noteq> CHR '' '') (map toLowerCaseChar (trim s))"
  by (simp add: normalizeForComparison_def replaceAllEmpty_space toLowerCase_def)

lemma of_char_toLowerCaseChar:
  "(of_char (toLowerCaseChar x) :: nat) =
     (if (65 \<le> (of_char x :: nat) \<and> (of_char x :: nat) \<le> 90)
         \<or> (192 \<le> (of_char x :: nat) \<and> (of_char x :: nat) \<le> 222 \<and> (of_char x :: nat) \<noteq> 215)
      then of_char x + 32 else of_char x)"
  by (simp add: toLowerCaseChar_def Let_def)

text \<open>Lower-casing neither changes nor produces a code unit outside the letter ranges.\<close>

lemma toLowerCaseChar_kept:
  assumes "(of_char c :: nat) < 65 \<or> (122 < (of_char c :: nat) \<and> (of_char c :: nat) < 192)"
  shows "toLowerCaseChar x = c \<longleftrightarrow> x = c"
proof
  assume "toLowerCaseChar x = c"
  then have "(of_char (toLowerCaseChar x) :: nat) = of_char c" by simp
  with assms have "(of_char x :: nat) = of_char c"
    by (auto simp: of_char_toLowerCaseChar split: if_splits)
  then show "x = c" by simp
next
  assume "x = c"
  with assms show "toLowerCaseChar x = c"
    by (auto simp: toLowerCaseChar_def Let_def)
qed

lemma count_normalizeForComparison:
  assumes "c = CHR 0x09 \<or> c = CHR 0x0A \<or> c = CHR 0xA0"
  shows "count_list (normalizeForComparison s) c = count_list (trim s) c"
proof -
  have k: "c \<noteq> CHR '' ''" "toLowerCaseChar c = c"
      "\<And>x. x \<noteq> c \<Longrightarrow> toLowerCaseChar x \<noteq> c"
    using assms toLowerCaseChar_kept [of c] by auto
  have "count_list (filter (\<lambda>x. x \<noteq> CHR '' '') (map toLowerCaseChar xs)) c = count_list xs c"
    for xs
    using k by (induction xs) auto
  then show ?thesis by (simp add: normalizeForComparison_filter)
qed

lemma trim_interior:
  assumes "\<exists>x\<in>set u. \<not> isWhiteSpace x" and "\<exists>y\<in>set v. \<not> isWhiteSpace y"
  shows "trim (u @ m @ v) = dropWhile isWhiteSpace u @ m @ rev (dropWhile isWhiteSpace (rev v))"
proof -
  from assms(1) obtain x where x: "x \<in> set u" "\<not> isWhiteSpace x" by blast
  from assms(2) obtain y where y: "y \<in> set (rev v)" "\<not> isWhiteSpace y" by auto
  have "dropWhile isWhiteSpace (u @ m @ v) = dropWhile isWhiteSpace u @ m @ v"
    using x by (simp add: dropWhile_append1)
  moreover have "dropWhile isWhiteSpace (rev v @ rev m @ rev (dropWhile isWhiteSpace u))
      = dropWhile isWhiteSpace (rev v) @ rev m @ rev (dropWhile isWhiteSpace u)"
    using y by (rule dropWhile_append1)
  ultimately show ?thesis by (simp add: trim_def)
qed

text \<open>
  Claim C10. \<open>normalizeForComparison\<close> removes, inside the string, the space U+0020 only.
  Let \<open>c\<close> be a tab, a line feed or a no-break space standing between a part \<open>u\<close> and a
  part \<open>v\<close> that both hold a code unit that is not white space, so that \<open>c\<close> is interior.
  Then \<open>c\<close> is kept in the result, which holds one more \<open>c\<close> than the result for the text
  without it; the result differs from the one for the text without \<open>c\<close> and from the one
  for the text with a space in its place, while that space itself disappears.
\<close>

theorem normalizeForComparison_interior:
  assumes "c = CHR 0x09 \<or> c = CHR 0x0A \<or> c = CHR 0xA0"
    and "\<exists>x\<in>set u. \<not> isWhiteSpace x" and "\<exists>y\<in>set v. \<not> isWhiteSpace y"
  shows "c \<in> set (normalizeForComparison (u @ c # v))
    \<and> count_list (normalizeForComparison (u @ c # v)) c
        = Suc (count_list (normalizeForComparison (u @ v)) c)
    \<and> normalizeForComparison (u @ c # v) \<noteq> normalizeForComparison (u @ v)
    \<and> normalizeForComparison (u @ c # v) \<noteq> normalizeForComparison (u @ CHR '' '' # v)
    \<and> normalizeForComparison (u @ CHR '' '' # v) = normalizeForComparison (u @ v)"
proof -
  let ?l = "dropWhile isWhiteSpace u" and ?r = "rev (dropWhile isWhiteSpace (rev v))"
  have t1: "trim (u @ c # v) = ?l @ c # ?r"
    using trim_interior [OF assms(2,3), of "[c]"] by simp
  have t2: "trim (u @ v) = ?l @ ?r"
    using trim_interior [OF assms(2,3), of "[]"] by simp
  have t3: "trim (u @ CHR '' '' # v) = ?l @ CHR '' '' # ?r"
    using trim_interior [OF assms(2,3), of "'' ''"] by simp
  have cnt: "count_list (normalizeForComparison (u @ c # v)) c
      = Suc (count_list (normalizeForComparison (u @ v)) c)"
    by (simp add: count_normalizeForComparison [OF assms(1)] t1 t2)
  have sp: "normalizeForComparison (u @ CHR '' '' # v) = normalizeForComparison (u @ v)"
    by (simp add: normalizeForComparison_filter t2 t3 toLowerCaseChar_def)
  have mem: "c \<in> set (normalizeForComparison (u @ c # v))"
    using cnt by (metis count_list_0_iff nat.distinct(1))
  have ne: "normalizeForComparison (u @ c # v) \<noteq> normalizeForComparison (u @ v)"
    using cnt by (metis n_not_Suc_n)
  show ?thesis using cnt sp mem ne by simp
qed

text \<open>The theorem at \<open>green<TAB>apple\<close>: the tab stays, so the text does not normalize to
  \<open>greenapple\<close> as \<open>green apple\<close> does.\<close>

theorem normalizeForComparison_interior_witness:
  "normalizeForComparison (''green'' @ CHR 0x09 # ''apple'')
      \<noteq> normalizeForComparison (''green'' @ ''apple'')
   \<and> CHR 0x09 \<in> set (normalizeForComparison (''green'' @ CHR 0x09 # ''apple''))
   \<and> normalizeForComparison (''green'' @ CHR '' '' # ''apple'')
      = normalizeForComparison (''green'' @ ''apple'')"
proof -
  have h1: "CHR 0x09 = CHR 0x09 \<or> CHR 0x09 = CHR 0x0A \<or> CHR 0x09 = CHR 0xA0" by simp
  have h2: "\<exists>x\<in>set ''green''. \<not> isWhiteSpace x" by (simp add: isWhiteSpace_def)
  have h3: "\<exists>y\<in>set ''apple''. \<not> isWhiteSpace y" by (simp add: isWhiteSpace_def)
  show ?thesis
    using normalizeForComparison_interior [OF h1 h2 h3] by blast
qed

section \<open>Properties of the match index and the matcher\<close>

lemma set_insertBy: "set (insertBy cmp x ys) = insert x (set ys)"
  by (induction ys) auto


lemma sorted_insertBy_length:
  "sorted_wrt (\<lambda>a b. length (normalized b) \<le> length (normalized a)) ys \<Longrightarrow>
   sorted_wrt (\<lambda>a b. length (normalized b) \<le> length (normalized a))
     (insertBy (\<lambda>first second. int (length (normalized second)) - int (length (normalized first)))
        x ys)"
  by (induction ys) (auto simp: set_insertBy)

lemma sorted_sortCompareItems:
  "sorted_wrt (\<lambda>a b. length (normalized b) \<le> length (normalized a)) (sortCompareItems items)"
  unfolding sortCompareItems_def
  by (induction items) (auto intro: sorted_insertBy_length)

lemma foldl_processStep_result:
  "fst (foldl processStep (res, t) items) = res @ fst (foldl processStep ([], t) items)"
proof (induction items arbitrary: res t)
  case Nil
  then show ?case by simp
next
  case (Cons a items)
  show ?case
  proof (cases "includesStr t (normalized a)")
    case True
    then show ?thesis
      using Cons.IH [of "res @ [a]"] Cons.IH [of "[a]"] by (simp add: processStep_def)
  next
    case False
    then show ?thesis
      using Cons.IH [of res t] by (simp add: processStep_def)
  qed
qed

lemma scanItems_Nil: "scanItems [] t = []"
  by (simp add: scanItems_def)

lemma scanItems_Cons:
  "scanItems (a # items) t =
     (if includesStr t (normalized a)
      then a # scanItems items (replaceAllEmpty t (normalized a))
      else scanItems items t)"
  using foldl_processStep_result [of "[a]" "replaceAllEmpty t (normalized a)" items]
  by (simp add: scanItems_def processStep_def)

lemma processText_scanItems:
  "processText fd text = scanItems (m_compareItemsByLength fd) (normalizeForComparison text)"
  by (simp add: processText_def scanItems_def)

lemma scanItems_no_match:
  "(\<forall>a\<in>set items. \<not> includesStr t (normalized a)) \<Longrightarrow> scanItems items t = []"
  by (induction items) (auto simp: scanItems_Nil scanItems_Cons)

lemma scanItems_subseq: "subseq (scanItems items t) items"
  by (induction items arbitrary: t) (auto simp: scanItems_Nil scanItems_Cons)

lemma scanItems_skip:
  "(\<forall>b\<in>set pre. \<not> includesStr t (normalized b)) \<Longrightarrow>
   scanItems (pre @ rest) t = scanItems rest t"
  by (induction pre) (auto simp: scanItems_Cons)

lemma foldl_processStep_text:
  "snd (foldl processStep (res, t) items) = snd (foldl processStep ([], t) items)"
proof (induction items arbitrary: res t)
  case Nil
  then show ?case by simp
next
  case (Cons a items)
  show ?case
  proof (cases "includesStr t (normalized a)")
    case True
    then show ?thesis
      using Cons.IH [of "res @ [a]"] Cons.IH [of "[a]"] by (simp add: processStep_def)
  next
    case False
    then show ?thesis
      using Cons.IH [of res t] by (simp add: processStep_def)
  qed
qed

lemma workingText_Nil: "workingText [] t = t"
  by (simp add: workingText_def)

lemma workingText_Cons:
  "workingText (a # items) t =
     workingText items
       (if includesStr t (normalized a) then replaceAllEmpty t (normalized a) else t)"
  using foldl_processStep_text [of "[a]" "replaceAllEmpty t (normalized a)" items]
  by (simp add: workingText_def processStep_def)

lemma workingText_append:
  "workingText (pre @ rest) t = workingText rest (workingText pre t)"
  by (induction pre arbitrary: t) (simp_all add: workingText_Nil workingText_Cons)

lemma scanItems_append:
  "scanItems (pre @ rest) t = scanItems pre t @ scanItems rest (workingText pre t)"
  by (induction pre arbitrary: t)
     (simp_all add: scanItems_Nil scanItems_Cons workingText_Nil workingText_Cons)

text \<open>The scan at the turn of the alias \<open>a\<close>: what the aliases before it returned, then
  \<open>a\<close> itself exactly when its normalized form occurs in the working text they have left,
  then what the aliases behind it return on the working text that \<open>a\<close> leaves.\<close>

lemma processText_at_turn:
  assumes "m_compareItemsByLength fd = pre @ a # post"
  shows "processText fd text =
     scanItems pre (normalizeForComparison text)
     @ (if includesStr (workingText pre (normalizeForComparison text)) (normalized a)
        then [a] else [])
     @ scanItems post (workingText (pre @ [a]) (normalizeForComparison text))"
  using assms
  by (simp add: processText_scanItems scanItems_append scanItems_Cons workingText_append
      workingText_Cons workingText_Nil)

lemma sorted_importRows:
  "sorted_wrt (\<lambda>a b. length (normalized b) \<le> length (normalized a))
     (m_compareItemsByLength (importRows rows))"
  by (simp add: importRows_def Let_def sorted_sortCompareItems)

text \<open>
  Claim C1. Longest-match precedence. In the catalog of the two foods \<open>pea\<close> and
  \<open>peanut butter\<close> (with the synonym \<open>peanut\<close>), in either order of the rows and whatever
  their categories, \<open>processText("I ate peanut butter")\<close> returns the alias record of
  \<open>peanut butter\<close> once and nothing else, so neither the alias \<open>pea\<close> nor the alias
  \<open>peanut\<close>. In general, for every imported catalog and every text: no alias that stands
  behind \<open>b\<close> in the scan list is longer than \<open>b\<close>, so every strictly longer alias is scanned
  before \<open>b\<close>; and for an alias \<open>a\<close> that stands before \<open>b\<close>, the scan tests \<open>a\<close> on the
  working text \<open>wa\<close> left by the aliases before it, removes every occurrence of \<open>a\<close> from
  it when \<open>a\<close> matches, and only then, behind the aliases between the two, tests \<open>b\<close> on
  the working text \<open>wb\<close> that is left of the text from which \<open>a\<close> has been removed.
\<close>

theorem processText_longest_match:
  "processText (importRows [[''pea'', c1], [''peanut butter'', c2, ''peanut'']])
       ''I ate peanut butter''
     = [\<lparr>normalized = ''peanutbutter'', original = ''peanut butter'',
         food = \<lparr>name = ''peanut butter'', category = normalizeName c2,
                  synonyms = [''peanut'']\<rparr>\<rparr>]
   \<and> processText (importRows [[''peanut butter'', c2, ''peanut''], [''pea'', c1]])
       ''I ate peanut butter''
     = [\<lparr>normalized = ''peanutbutter'', original = ''peanut butter'',
         food = \<lparr>name = ''peanut butter'', category = normalizeName c2,
                  synonyms = [''peanut'']\<rparr>\<rparr>]
   \<and> (m_compareItemsByLength (importRows rows) = pre @ b # post \<longrightarrow>
        (\<forall>x\<in>set post. length (normalized x) \<le> length (normalized b)))
   \<and> (m_compareItemsByLength (importRows rows) = pa @ a # pb @ b # post \<longrightarrow>
        length (normalized b) \<le> length (normalized a)
        \<and> (let t = normalizeForComparison text;
                wa = workingText pa t;
                wa' = (if includesStr wa (normalized a)
                       then replaceAllEmpty wa (normalized a) else wa);
                wb = workingText pb wa';
                wb' = (if includesStr wb (normalized b)
                       then replaceAllEmpty wb (normalized b) else wb)
             in processText (importRows rows) text
                  = scanItems pa t
                    @ (if includesStr wa (normalized a) then [a] else [])
                    @ scanItems pb wa'
                    @ (if includesStr wb (normalized b) then [b] else [])
                    @ scanItems post wb'))"
proof (intro conjI impI)
  show "processText (importRows [[''pea'', c1], [''peanut butter'', c2, ''peanut'']])
       ''I ate peanut butter''
     = [\<lparr>normalized = ''peanutbutter'', original = ''peanut butter'',
         food = \<lparr>name = ''peanut butter'', category = normalizeName c2,
                  synonyms = [''peanut'']\<rparr>\<rparr>]"
    by code_simp
  show "processText (importRows [[''peanut butter'', c2, ''peanut''], [''pea'', c1]])
       ''I ate peanut butter''
     = [\<lparr>normalized = ''peanutbutter'', original = ''peanut butter'',
         food = \<lparr>name = ''peanut butter'', category = normalizeName c2,
                  synonyms = [''peanut'']\<rparr>\<rparr>]"
    by code_simp
next
  assume "m_compareItemsByLength (importRows rows) = pre @ b # post"
  then have "sorted_wrt (\<lambda>a b. length (normalized b) \<le> length (normalized a))
      (pre @ b # post)"
    using sorted_importRows [of rows] by simp
  then show "\<forall>x\<in>set post. length (normalized x) \<le> length (normalized b)"
    by (simp add: sorted_wrt_append)
next
  assume idx: "m_compareItemsByLength (importRows rows) = pa @ a # pb @ b # post"
  then have "sorted_wrt (\<lambda>a b. length (normalized b) \<le> length (normalized a))
      (pa @ a # pb @ b # post)"
    using sorted_importRows [of rows] by simp
  then show "length (normalized b) \<le> length (normalized a)"
    by (simp add: sorted_wrt_append)
  show "let t = normalizeForComparison text;
            wa = workingText pa t;
            wa' = (if includesStr wa (normalized a)
                   then replaceAllEmpty wa (normalized a) else wa);
            wb = workingText pb wa';
            wb' = (if includesStr wb (normalized b)
                   then replaceAllEmpty wb (normalized b) else wb)
         in processText (importRows rows) text
              = scanItems pa t
                @ (if includesStr wa (normalized a) then [a] else [])
                @ scanItems pb wa'
                @ (if includesStr wb (normalized b) then [b] else [])
                @ scanItems post wb'"
    using idx
    by (simp add: Let_def processText_scanItems scanItems_append scanItems_Cons
        workingText_append workingText_Cons workingText_Nil)
qed

text \<open>The theorem at the catalog of \<open>apple\<close> (with the synonym \<open>green apple\<close>) and
  \<open>banana\<close> and the text \<open>I had a green apple and a banana\<close>: the scan list is
  \<open>greenapple\<close>, \<open>banana\<close>, \<open>apple\<close>; \<open>greenapple\<close> matches first and is removed, then
  \<open>banana\<close> matches, and \<open>apple\<close> finds nothing left.\<close>

theorem processText_longest_match_witness:
  "processText (importRows [[''apple'', ''fruit'', ''green apple''], [''banana'', ''fruit'', []]])
       ''I had a green apple and a banana''
     = [\<lparr>normalized = ''greenapple'', original = ''green apple'',
         food = \<lparr>name = ''apple'', category = ''fruit'', synonyms = [''green apple'']\<rparr>\<rparr>,
        \<lparr>normalized = ''banana'', original = ''banana'',
         food = \<lparr>name = ''banana'', category = ''fruit'', synonyms = []\<rparr>\<rparr>]"
proof -
  let ?rows = "[[''apple'', ''fruit'', ''green apple''], [''banana'', ''fruit'', []]]"
  let ?text = "''I had a green apple and a banana''"
  let ?g = "\<lparr>normalized = ''greenapple'', original = ''green apple'',
         food = \<lparr>name = ''apple'', category = ''fruit'', synonyms = [''green apple'']\<rparr>\<rparr>"
  let ?b = "\<lparr>normalized = ''banana'', original = ''banana'',
         food = \<lparr>name = ''banana'', category = ''fruit'', synonyms = []\<rparr>\<rparr>"
  let ?a = "\<lparr>normalized = ''apple'', original = ''apple'',
         food = \<lparr>name = ''apple'', category = ''fruit'', synonyms = [''green apple'']\<rparr>\<rparr>"
  have idx: "m_compareItemsByLength (importRows ?rows) = [] @ ?g # [] @ ?b # [?a]"
    by code_simp
  have rhs: "(let t = normalizeForComparison ?text;
            wa = workingText [] t;
            wa' = (if includesStr wa (normalized ?g)
                   then replaceAllEmpty wa (normalized ?g) else wa);
            wb = workingText [] wa';
            wb' = (if includesStr wb (normalized ?b)
                   then replaceAllEmpty wb (normalized ?b) else wb)
         in scanItems [] t
              @ (if includesStr wa (normalized ?g) then [?g] else [])
              @ scanItems [] wa'
              @ (if includesStr wb (normalized ?b) then [?b] else [])
              @ scanItems [?a] wb') = [?g, ?b]"
    by code_simp
  have "let t = normalizeForComparison ?text;
            wa = workingText [] t;
            wa' = (if includesStr wa (normalized ?g)
                   then replaceAllEmpty wa (normalized ?g) else wa);
            wb = workingText [] wa';
            wb' = (if includesStr wb (normalized ?b)
                   then replaceAllEmpty wb (normalized ?b) else wb)
         in processText (importRows ?rows) ?text
              = scanItems [] t
                @ (if includesStr wa (normalized ?g) then [?g] else [])
                @ scanItems [] wa'
                @ (if includesStr wb (normalized ?b) then [?b] else [])
                @ scanItems [?a] wb'"
    using processText_longest_match
      [where rows = "?rows" and pa = "[]" and a = "?g" and pb = "[]" and b = "?b"
         and post = "[?a]"] idx
    by blast
  then show ?thesis
    using rhs unfolding Let_def by simp
qed

text \<open>
  Claim C2, as stated, at the catalog of \<open>apple pie\<close> and \<open>apple\<close> and the text
  \<open>apple pie and apple pie\<close>: the normalized form \<open>apple\<close> of the second alias occurs
  twice in the normalized text, and the alias is not returned at all, because the longer
  alias \<open>applepie\<close> is scanned first and takes both occurrences with it.
\<close>

theorem processText_not_exactly_once:
  "m_compareItemsByLength (importRows [[''apple pie'', ''dessert''], [''apple'', ''fruit'']])
     = [\<lparr>normalized = ''applepie'', original = ''apple pie'',
          food = \<lparr>name = ''apple pie'', category = ''dessert'', synonyms = []\<rparr>\<rparr>,
        \<lparr>normalized = ''apple'', original = ''apple'',
          food = \<lparr>name = ''apple'', category = ''fruit'', synonyms = []\<rparr>\<rparr>]
   \<and> normalizeForComparison ''apple pie and apple pie''
     = [] @ ''apple'' @ ''pieand'' @ ''apple'' @ ''pie''
   \<and> count_list
       (processText (importRows [[''apple pie'', ''dessert''], [''apple'', ''fruit'']])
          ''apple pie and apple pie'')
       \<lparr>normalized = ''apple'', original = ''apple'',
          food = \<lparr>name = ''apple'', category = ''fruit'', synonyms = []\<rparr>\<rparr>
     = 0
   \<and> processText (importRows [[''apple pie'', ''dessert''], [''apple'', ''fruit'']])
        ''apple pie and apple pie''
     = [\<lparr>normalized = ''applepie'', original = ''apple pie'',
          food = \<lparr>name = ''apple pie'', category = ''dessert'', synonyms = []\<rparr>\<rparr>]"
  by code_simp

text \<open>
  Claim C2, amended. For every catalog and every text, \<open>processText\<close> returns each alias
  record of the scan list at most once, however often its normalized form occurs: the
  result is a subsequence of the scan list. The alias \<open>a\<close> at a position of the scan list
  is returned, once and at its turn, exactly when its normalized form occurs in the
  working text at its turn, which is the normalized text from which the matches of the
  aliases scanned before \<open>a\<close> have been removed; when it does not occur there, as when a
  longer alias has consumed its occurrences, the result holds only what the aliases
  before and behind \<open>a\<close> return.
\<close>

theorem processText_at_most_once:
  "subseq (processText fd text) (m_compareItemsByLength fd)
   \<and> (m_compareItemsByLength fd = pre @ a # post \<longrightarrow>
        (let t = normalizeForComparison text;
             w = workingText pre t;
             w' = (if includesStr w (normalized a) then replaceAllEmpty w (normalized a) else w)
         in processText fd text
              = scanItems pre t @ (if includesStr w (normalized a) then [a] else [])
                @ scanItems post w'
            \<and> subseq (scanItems pre t) pre
            \<and> subseq (scanItems post w') post))"
proof (intro conjI impI)
  show "subseq (processText fd text) (m_compareItemsByLength fd)"
    unfolding processText_scanItems by (rule scanItems_subseq)
next
  assume idx: "m_compareItemsByLength fd = pre @ a # post"
  show "let t = normalizeForComparison text;
            w = workingText pre t;
            w' = (if includesStr w (normalized a) then replaceAllEmpty w (normalized a) else w)
        in processText fd text
             = scanItems pre t @ (if includesStr w (normalized a) then [a] else [])
               @ scanItems post w'
           \<and> subseq (scanItems pre t) pre
           \<and> subseq (scanItems post w') post"
    using processText_at_turn [OF idx, of "text"] scanItems_subseq
    by (simp add: Let_def workingText_append workingText_Cons workingText_Nil)
qed

text \<open>The theorem at the catalog of \<open>banana\<close> and \<open>apple\<close>: for the text
  \<open>banana and apple and apple\<close> the alias \<open>banana\<close> matches before \<open>apple\<close>, and \<open>apple\<close>,
  which occurs twice in the working text \<open>andappleandapple\<close>, is returned once.\<close>

theorem processText_at_most_once_witness:
  "processText (importRows [[''banana'', ''fruit''], [''apple'', ''fruit'']])
       ''banana and apple and apple''
     = [\<lparr>normalized = ''banana'', original = ''banana'',
         food = \<lparr>name = ''banana'', category = ''fruit'', synonyms = []\<rparr>\<rparr>,
        \<lparr>normalized = ''apple'', original = ''apple'',
         food = \<lparr>name = ''apple'', category = ''fruit'', synonyms = []\<rparr>\<rparr>]
   \<and> workingText
         [\<lparr>normalized = ''banana'', original = ''banana'',
           food = \<lparr>name = ''banana'', category = ''fruit'', synonyms = []\<rparr>\<rparr>]
         (normalizeForComparison ''banana and apple and apple'')
     = ''and'' @ ''apple'' @ ''and'' @ ''apple''"
proof -
  let ?fd = "importRows [[''banana'', ''fruit''], [''apple'', ''fruit'']]"
  let ?text = "''banana and apple and apple''"
  let ?b = "\<lparr>normalized = ''banana'', original = ''banana'',
         food = \<lparr>name = ''banana'', category = ''fruit'', synonyms = []\<rparr>\<rparr>"
  let ?a = "\<lparr>normalized = ''apple'', original = ''apple'',
         food = \<lparr>name = ''apple'', category = ''fruit'', synonyms = []\<rparr>\<rparr>"
  have idx: "m_compareItemsByLength ?fd = [?b] @ ?a # []" by code_simp
  have w: "workingText [?b] (normalizeForComparison ?text) = ''andappleandapple''"
    by code_simp
  have pre: "scanItems [?b] (normalizeForComparison ?text) = [?b]"
    by code_simp
  have occ: "includesStr ''andappleandapple'' (normalized ?a)"
    by code_simp
  have "let t = normalizeForComparison ?text;
            w = workingText [?b] t;
            w' = (if includesStr w (normalized ?a) then replaceAllEmpty w (normalized ?a) else w)
        in processText ?fd ?text
             = scanItems [?b] t @ (if includesStr w (normalized ?a) then [?a] else [])
               @ scanItems [] w'"
    using processText_at_most_once [where fd = "?fd" and pre = "[?b]" and a = "?a" and post = "[]"]
      idx unfolding Let_def by blast
  then have "processText ?fd ?text = [?b, ?a]"
    unfolding Let_def w pre using occ by (simp add: scanItems_Nil)
  with w show ?thesis by simp
qed

text \<open>What holds of the edge cases of the matcher on every catalog: a text in which no
  alias occurs has no match, and the empty text has no match when no alias has an empty
  normalized form.\<close>

lemma processText_no_alias_occurs:
  assumes "\<forall>a\<in>set (m_compareItemsByLength fd).
      \<not> includesStr (normalizeForComparison text) (normalized a)"
  shows "processText fd text = []"
  using assms by (simp add: processText_scanItems scanItems_no_match)

lemma normalizeForComparison_Nil: "normalizeForComparison [] = []"
  by (simp add: normalizeForComparison_def trim_def toLowerCase_def)

lemma processText_empty_text:
  assumes "\<forall>a\<in>set (m_compareItemsByLength fd). normalized a \<noteq> []"
  shows "processText fd [] = []"
  using assms
  by (intro processText_no_alias_occurs) (simp add: normalizeForComparison_Nil)

text \<open>
  Claim C8. The empty text should give no match on every catalog. A row whose first cell
  is empty passes the only check of \<open>processRows\<close> (at least two cells) and becomes a food
  with the empty name; its alias has the empty normalized form, which every string
  includes, the empty one too. On the catalog imported from the single row
  \<open>["", "fruit"]\<close> the matcher returns that alias for the empty text.
\<close>

theorem processText_empty_alias:
  "processText (importRows [[[], ''fruit'']]) []
     = [\<lparr>normalized = [], original = [],
         food = \<lparr>name = [], category = ''fruit'', synonyms = []\<rparr>\<rparr>]"
  by code_simp

text \<open>
  Claim C9. Seam matches. The scan tests an alias on the working text, not on the
  normalized text: scanning one more alias \<open>a\<close> removes every occurrence of its
  normalized form from the working text when it occurs there, and an alias \<open>e\<close> whose
  normalized form occurs in the working text at its turn is returned. So there are a
  catalog and a text for which \<open>processText\<close> returns an alias whose normalized form does
  not occur in the normalized text: the normalized text is \<open>u\<close>, the longer alias \<open>a\<close>,
  \<open>v\<close>; removing \<open>a\<close> joins \<open>u\<close> and \<open>v\<close>, and the shorter alias \<open>e\<close>, scanned next, is
  \<open>u\<close> followed by \<open>v\<close> and matches across the seam.
\<close>

theorem processText_seam_match:
  "workingText (pre @ [a]) t
     = (if includesStr (workingText pre t) (normalized a)
        then replaceAllEmpty (workingText pre t) (normalized a) else workingText pre t)
   \<and> (m_compareItemsByLength fd = pre @ e # post
        \<and> includesStr (workingText pre (normalizeForComparison text)) (normalized e) \<longrightarrow>
      processText fd text
        = scanItems pre (normalizeForComparison text)
          @ e # scanItems post
                  (replaceAllEmpty (workingText pre (normalizeForComparison text))
                     (normalized e)))
   \<and> (\<exists>rows text' a' e' u v.
        m_compareItemsByLength (importRows rows) = [a', e']
        \<and> length (normalized e') < length (normalized a')
        \<and> u \<noteq> [] \<and> v \<noteq> []
        \<and> normalizeForComparison text' = u @ normalized a' @ v
        \<and> workingText [a'] (normalizeForComparison text') = u @ v
        \<and> normalized e' = u @ v
        \<and> \<not> includesStr (normalizeForComparison text') (normalized e')
        \<and> processText (importRows rows) text' = [a', e'])"
proof (intro conjI impI)
  show "workingText (pre @ [a]) t
     = (if includesStr (workingText pre t) (normalized a)
        then replaceAllEmpty (workingText pre t) (normalized a) else workingText pre t)"
    by (simp add: workingText_append workingText_Cons workingText_Nil)
next
  assume h: "m_compareItemsByLength fd = pre @ e # post
        \<and> includesStr (workingText pre (normalizeForComparison text)) (normalized e)"
  then show "processText fd text
        = scanItems pre (normalizeForComparison text)
          @ e # scanItems post
                  (replaceAllEmpty (workingText pre (normalizeForComparison text))
                     (normalized e))"
    using processText_at_turn [of fd pre e post "text"]
    by (simp add: workingText_append workingText_Cons workingText_Nil)
next
  let ?rows = "[[''corn'', ''vegetable''], [''pea'', ''vegetable'']]"
  let ?a = "\<lparr>normalized = ''corn'', original = ''corn'',
             food = \<lparr>name = ''corn'', category = ''vegetable'', synonyms = []\<rparr>\<rparr>"
  let ?e = "\<lparr>normalized = ''pea'', original = ''pea'',
             food = \<lparr>name = ''pea'', category = ''vegetable'', synonyms = []\<rparr>\<rparr>"
  have "m_compareItemsByLength (importRows ?rows) = [?a, ?e]
        \<and> length (normalized ?e) < length (normalized ?a)
        \<and> ''pe'' \<noteq> [] \<and> ''a'' \<noteq> []
        \<and> normalizeForComparison ''pe corn a'' = ''pe'' @ normalized ?a @ ''a''
        \<and> workingText [?a] (normalizeForComparison ''pe corn a'') = ''pe'' @ ''a''
        \<and> normalized ?e = ''pe'' @ ''a''
        \<and> \<not> includesStr (normalizeForComparison ''pe corn a'') (normalized ?e)
        \<and> processText (importRows ?rows) ''pe corn a'' = [?a, ?e]"
    by code_simp
  then show "\<exists>rows text' a' e' u v.
        m_compareItemsByLength (importRows rows) = [a', e']
        \<and> length (normalized e') < length (normalized a')
        \<and> u \<noteq> [] \<and> v \<noteq> []
        \<and> normalizeForComparison text' = u @ normalized a' @ v
        \<and> workingText [a'] (normalizeForComparison text') = u @ v
        \<and> normalized e' = u @ v
        \<and> \<not> includesStr (normalizeForComparison text') (normalized e')
        \<and> processText (importRows rows) text' = [a', e']"
    by blast
qed

text \<open>The theorem at the foods \<open>corn\<close> and \<open>pea\<close> and the text \<open>pe corn a\<close>: at the turn of
  \<open>pea\<close> the working text is \<open>pea\<close>, so both aliases are returned, while \<open>pea\<close> does not
  occur in \<open>pecorna\<close>.\<close>

theorem processText_seam_match_witness:
  "processText (importRows [[''corn'', ''vegetable''], [''pea'', ''vegetable'']]) ''pe corn a''
     = [\<lparr>normalized = ''corn'', original = ''corn'',
         food = \<lparr>name = ''corn'', category = ''vegetable'', synonyms = []\<rparr>\<rparr>,
        \<lparr>normalized = ''pea'', original = ''pea'',
         food = \<lparr>name = ''pea'', category = ''vegetable'', synonyms = []\<rparr>\<rparr>]
   \<and> \<not> includesStr (normalizeForComparison ''pe corn a'') ''pea''"
proof -
  let ?fd = "importRows [[''corn'', ''vegetable''], [''pea'', ''vegetable'']]"
  let ?a = "\<lparr>normalized = ''corn'', original = ''corn'',
             food = \<lparr>name = ''corn'', category = ''vegetable'', synonyms = []\<rparr>\<rparr>"
  let ?e = "\<lparr>normalized = ''pea'', original = ''pea'',
             food = \<lparr>name = ''pea'', category = ''vegetable'', synonyms = []\<rparr>\<rparr>"
  have idx: "m_compareItemsByLength ?fd = [?a] @ ?e # []" by code_simp
  have occ: "includesStr (workingText [?a] (normalizeForComparison ''pe corn a'')) (normalized ?e)"
    by code_simp
  have pre: "scanItems [?a] (normalizeForComparison ''pe corn a'') = [?a]"
    by code_simp
  have no: "\<not> includesStr (normalizeForComparison ''pe corn a'') ''pea''"
    by code_simp
  have "processText ?fd ''pe corn a''
        = scanItems [?a] (normalizeForComparison ''pe corn a'')
          @ ?e # scanItems []
                  (replaceAllEmpty (workingText [?a] (normalizeForComparison ''pe corn a''))
                     (normalized ?e))"
    using processText_seam_match [where fd = "?fd" and pre = "[?a]" and e = "?e" and post = "[]"]
      idx occ by blast
  then have "processText ?fd ''pe corn a'' = [?a, ?e]"
    unfolding pre by (simp add: scanItems_Nil)
  with no show ?thesis by simp
qed

section \<open>Properties of the week arithmetic\<close>

lemma msPerDay_pos: "0 < msPerDay"
  by (simp add: msPerDay_def)

text \<open>First in the zone of UTC, where a local time value is the time value itself.\<close>

lemma LocalTime_utcZone [simp]: "LocalTime utcZone t = t"
  by (simp add: LocalTime_def utcZone_def)

lemma UTC_utcZone [simp]: "UTC utcZone l = l"
  by (simp add: UTC_def utcZone_def)

lemma getDay_utc: "getDay utcZone t = (Day t + 4) mod 7"
  by (simp add: getDay_def)

lemma setDateRelative_utc: "setDateRelative utcZone t k = t + k * msPerDay"
  by (simp add: setDateRelative_def)

lemma setHours_utc:
  "setHours utcZone t h m s ms = Day t * msPerDay + (((h * 60 + m) * 60 + s) * 1000 + ms)"
  by (simp add: setHours_def)

lemma Day_midnight_plus:
  assumes "0 \<le> r" and "r < msPerDay"
  shows "Day (a * msPerDay + r) = a"
  using assms by (simp add: Day_def div_pos_pos_trivial)

lemma Day_setDateRelative: "Day (setDateRelative utcZone t k) = Day t + k"
  using msPerDay_pos by (simp add: Day_def setDateRelative_utc)

lemma setHours_midnight: "setHours utcZone t 0 0 0 0 = Day t * msPerDay"
  by (simp add: setHours_utc)

lemma setHours_lastInstant: "setHours utcZone t 23 59 59 999 = Day t * msPerDay + (msPerDay - 1)"
  by (simp add: setHours_utc msPerDay_def)



lemma startOfWeek_eq:
  "startOfWeek utcZone firstDay d = (Day d - (getDay utcZone d - firstDay + 7) smod 7) * msPerDay"
  by (simp add: startOfWeek_def Let_def setHours_midnight Day_setDateRelative)

lemma Day_startOfWeek:
  "Day (startOfWeek utcZone firstDay d) = Day d - (getDay utcZone d - firstDay + 7) smod 7"
  using Day_midnight_plus [of 0 "Day d - (getDay utcZone d - firstDay + 7) smod 7"] msPerDay_pos
  by (simp add: startOfWeek_eq)

lemma startOfWeek_midnight: "Day (startOfWeek utcZone firstDay d) * msPerDay = startOfWeek utcZone firstDay d"
  by (simp add: Day_startOfWeek) (simp add: startOfWeek_eq)

lemma endOfWeek_eq:
  "endOfWeek utcZone firstDay d = (Day (startOfWeek utcZone firstDay d) + 6) * msPerDay + (msPerDay - 1)"
  by (simp add: endOfWeek_def Let_def setHours_lastInstant Day_setDateRelative)

lemma endOfWeek_startOfWeek:
  "endOfWeek utcZone firstDay d = startOfWeek utcZone firstDay d + 7 * msPerDay - 1"
proof -
  have "endOfWeek utcZone firstDay d = Day (startOfWeek utcZone firstDay d) * msPerDay + 7 * msPerDay - 1"
    by (simp add: endOfWeek_eq algebra_simps)
  then show ?thesis by (simp add: startOfWeek_midnight)
qed










lemma getDay_shift_week: "getDay utcZone (setDateRelative utcZone t (- 7)) = getDay utcZone t"
proof -
  have "(Day t + 4 - 7) mod 7 = (Day t + 4) mod 7" by (rule minus_mod_self2)
  then show ?thesis by (simp add: getDay_utc Day_setDateRelative)
qed

lemma startOfWeek_shift_week:
  "startOfWeek utcZone firstDay (setDateRelative utcZone t (- 7)) = startOfWeek utcZone firstDay t - 7 * msPerDay"
  by (simp add: startOfWeek_eq getDay_shift_week Day_setDateRelative algebra_simps)

lemma endOfWeek_shift_week:
  "endOfWeek utcZone firstDay (setDateRelative utcZone t (- 7)) = endOfWeek utcZone firstDay t - 7 * msPerDay"
  by (simp add: endOfWeek_startOfWeek startOfWeek_shift_week)



















section \<open>Properties of the week aggregator\<close>
















text \<open>Every log that \<open>initialize\<close>, \<open>add\<close> or \<open>clear\<close> leaves is a sorted log.\<close>

lemma history_states_sorted:
  "initialize P fd raw = Inr h \<Longrightarrow> \<exists>es. m_historyEntries h = sortEntries es"
  "\<exists>es. m_historyEntries (add nows entries h') = sortEntries es"
  "m_historyEntries clear = sortEntries []"
  by (auto simp: initialize_def add_def clear_def sortEntries_def split: sum.splits)









section \<open>Properties of the history store\<close>

text \<open>The sample platform reads back what it writes.\<close>

lemma unquoteBody_quote:
  "unquoteBody acc
     (concat (map (\<lambda>c. if c = CHR 0x22 \<or> c = CHR 0x5C then [CHR 0x5C, c] else [c]) s)
        @ CHR 0x22 # rest)
   = Some (rev acc @ s, rest)"
proof (induction s arbitrary: acc)
  case Nil
  show ?case by (cases rest) simp_all
next
  case (Cons x xs)
  let ?tail = "concat (map (\<lambda>c. if c = CHR 0x22 \<or> c = CHR 0x5C then [CHR 0x5C, c] else [c]) xs)
        @ CHR 0x22 # rest"
  obtain y ys where t: "?tail = y # ys" by (cases ?tail) simp_all
  show ?case
  proof (cases "x = CHR 0x22 \<or> x = CHR 0x5C")
    case True
    then show ?thesis using Cons [of "x # acc"] by auto
  next
    case False
    have "unquoteBody acc (x # y # ys) = unquoteBody (x # acc) (y # ys)"
      using False by simp
    then show ?thesis
      using False Cons [of "x # acc"] unfolding t [symmetric] by simp
  qed
qed

lemma jsonUnquote_quote: "jsonUnquote (jsonQuote s @ rest) = Some (s, rest)"
  using unquoteBody_quote [of "[]" s rest] by (simp add: jsonUnquote_def jsonQuote_def)

lemma sampleParse_sampleStringify: "sampleParse (sampleStringify d) = Some d"
  by (simp add: sampleParse_def sampleStringify_def expect_def jsonUnquote_quote)


text \<open>
  Claim C6. Round trip. Let \<open>e\<close> be a history entry whose food name the catalog resolves,
  on a platform where \<open>JSON.parse\<close> gives back every object that \<open>JSON.stringify\<close> has
  written and the \<open>Date\<close> constructor gives back the date of \<open>e\<close> from the text that
  \<open>toISOString\<close> has written for it. Then \<open>createFromStorage(e.toJson())\<close> returns an entry
  whose food has the name of the food of \<open>e\<close>, with the \<open>consumedName\<close> and the date (a time
  value in milliseconds) of \<open>e\<close>.
\<close>

theorem history_round_trip:
  assumes "findForName fd (name (m_food e)) \<noteq> None"
    and "\<forall>d. JSON_parse_data P (JSON_stringify_data P d) = Some d"
    and "newDateFromString P (toISOString P (m_date e)) = m_date e"
  shows "\<exists>e'. createFromStorage P fd (toJson P e) = Inr e'
     \<and> name (m_food e') = name (m_food e)
     \<and> m_consumedName e' = m_consumedName e
     \<and> m_date e' = m_date e"
proof -
  from assms(1) obtain fe where fe: "findForName fd (name (m_food e)) = Some fe" by blast
  then have "name fe = name (m_food e)"
    unfolding findForName_def by (auto dest: find_Some_iff [THEN iffD1])
  moreover have "JSON_parse_data P (toJson P e)
      = Some \<lparr>foodName = name (m_food e), consumedName = m_consumedName e,
              date = toISOString P (m_date e)\<rparr>"
    unfolding toJson_def using assms(2) by blast
  ultimately show ?thesis
    using fe assms(3) by (simp add: createFromStorage_def)
qed

text \<open>The theorem on the sample platform, for the entry of a \<open>green apple\<close> eaten on
  7 January 2024 at 12:00 UTC and the catalog of the single food \<open>apple\<close>; the text that
  \<open>toJson\<close> writes is the first sample record text.\<close>

theorem history_round_trip_witness:
  "toJson samplePlatform
      \<lparr>m_food = \<lparr>name = ''apple'', category = ''fruit'', synonyms = [''green apple'']\<rparr>,
       m_consumedName = ''green apple'', m_date = 1704628800000\<rparr> = sampleAppleText
   \<and> (\<exists>e'. createFromStorage samplePlatform
           (importRows [[''apple'', ''fruit'', ''green apple'']])
           (toJson samplePlatform
              \<lparr>m_food = \<lparr>name = ''apple'', category = ''fruit'', synonyms = [''green apple'']\<rparr>,
               m_consumedName = ''green apple'', m_date = 1704628800000\<rparr>) = Inr e'
     \<and> name (m_food e') = ''apple''
     \<and> m_consumedName e' = ''green apple''
     \<and> m_date e' = 1704628800000)"
proof -
  let ?fd = "importRows [[''apple'', ''fruit'', ''green apple'']]"
  let ?e = "\<lparr>m_food = \<lparr>name = ''apple'', category = ''fruit'', synonyms = [''green apple'']\<rparr>,
             m_consumedName = ''green apple'', m_date = 1704628800000\<rparr>"
  have h1: "findForName ?fd (name (m_food ?e)) \<noteq> None"
    by code_simp
  have h2: "\<forall>d. JSON_parse_data samplePlatform (JSON_stringify_data samplePlatform d) = Some d"
    by (simp add: samplePlatform_def sampleParse_sampleStringify)
  have h3: "newDateFromString samplePlatform (toISOString samplePlatform (m_date ?e))
      = m_date ?e"
    by (simp add: samplePlatform_def)
  have t: "toJson samplePlatform ?e = sampleAppleText"
    by code_simp
  show ?thesis
    using history_round_trip [OF h1 h2 h3] t by simp
qed

lemma mapCreateFromStorage_error:
  assumes "t \<in> set texts" and "createFromStorage P fd t = Inl err"
  shows "\<exists>err'. mapCreateFromStorage P fd texts = Inl err'"
  using assms by (induction texts) (auto split: sum.splits)

text \<open>
  Claim C7. Fatal history load. Let the stored batch parse to a list of record texts, one
  of which parses to a record whose \<open>foodName\<close> the catalog does not resolve. Then
  \<open>createFromStorage\<close> throws on that record, and \<open>loadFromStorage\<close> and with it
  \<open>initialize\<close> end in an error: the whole load is aborted and no history, not even a
  partial one, is produced.
\<close>

theorem history_load_fatal:
  assumes "raw \<noteq> []" and "JSON_parse_texts P raw = Some texts"
    and "t \<in> set texts" and "JSON_parse_data P t = Some storageData"
    and "findForName fd (foodName storageData) = None"
  shows "createFromStorage P fd t = Inl (FoodNotFound (foodName storageData))
    \<and> (\<exists>err. loadFromStorage P fd (Some raw) = Inl err
              \<and> initialize P fd (Some raw) = Inl err)"
proof -
  have c: "createFromStorage P fd t = Inl (FoodNotFound (foodName storageData))"
    using assms(4,5) by (simp add: createFromStorage_def)
  with assms(3) obtain err where "mapCreateFromStorage P fd texts = Inl err"
    using mapCreateFromStorage_error by blast
  then have "loadFromStorage P fd (Some raw) = Inl err \<and> initialize P fd (Some raw) = Inl err"
    using assms(1,2) by (simp add: loadFromStorage_def initialize_def)
  with c show ?thesis by blast
qed


text \<open>The theorem on the sample platform: the stored batch holds a record of \<open>apple\<close> and
  a record of \<open>durian\<close>, and the catalog knows \<open>apple\<close> only.\<close>

theorem history_load_fatal_witness:
  "createFromStorage samplePlatform (importRows [[''apple'', ''fruit'', ''green apple'']])
       sampleDurianText = Inl (FoodNotFound ''durian'')
   \<and> (\<exists>err. loadFromStorage samplePlatform
                 (importRows [[''apple'', ''fruit'', ''green apple'']]) (Some sampleRaw) = Inl err
             \<and> initialize samplePlatform
                 (importRows [[''apple'', ''fruit'', ''green apple'']]) (Some sampleRaw) = Inl err)"
proof -
  let ?fd = "importRows [[''apple'', ''fruit'', ''green apple'']]"
  let ?sd = "\<lparr>foodName = ''durian'', consumedName = ''durian'',
              date = ''2024-01-08T09:30:00.000Z''\<rparr>"
  have h1: "sampleRaw \<noteq> []" by (simp add: sampleRaw_def)
  have h2: "JSON_parse_texts samplePlatform sampleRaw = Some [sampleAppleText, sampleDurianText]"
    by (simp add: samplePlatform_def)
  have h3: "sampleDurianText \<in> set [sampleAppleText, sampleDurianText]" by simp
  have h4: "JSON_parse_data samplePlatform sampleDurianText = Some ?sd"
    by code_simp
  have h5: "findForName ?fd (foodName ?sd) = None"
    by code_simp
  show ?thesis
    using history_load_fatal [OF h1 h2 h3 h4 h5] by simp
qed

end
